theory Spec2Isabelle
  imports Main
begin

section \<open>Data model\<close>

text \<open>
  The program is one Go file, \<^verbatim>\<open>main.go\<close>. It reads Kubernetes nodes and EC2
  instances and deletes node objects. The types below are the parts of the Kubernetes
  and AWS SDK types that the file reads.

  A Go \<^verbatim>\<open>error\<close> is modelled by its message. A function that returns
  \<^verbatim>\<open>(bool, error)\<close> returns a pair \<open>bool \<times> error option\<close>, with \<open>None\<close> for
  \<^verbatim>\<open>nil\<close>.
\<close>

datatype error = Error string

fun Error_msg :: "error \<Rightarrow> string" where
  "Error_msg (Error m) = m"

text \<open>
  \<^verbatim>\<open>v1.NodeConditionType\<close> and \<^verbatim>\<open>v1.ConditionStatus\<close> are string types in
  \<^verbatim>\<open>k8s.io/client-go/pkg/api/v1\<close>; the three constants are the values the
  Kubernetes and AWS libraries give them.
\<close>

definition NodeReady :: string where
  "NodeReady = ''Ready''"

definition ConditionFalse :: string where
  "ConditionFalse = ''False''"

definition InstanceStateNameRunning :: string where
  "InstanceStateNameRunning = ''running''"

record NodeCondition =
  Type :: string
  Status :: string

text \<open>
  Of \<^verbatim>\<open>v1.Node\<close> the program reads \<^verbatim>\<open>ObjectMeta.Name\<close>,
  \<^verbatim>\<open>Spec.ExternalID\<close> and \<^verbatim>\<open>Status.Conditions\<close>.
\<close>

record Node =
  Name :: string
  ExternalID :: string
  Conditions :: "NodeCondition list"

text \<open>
  The AWS SDK's response types hold pointers: \<^verbatim>\<open>Reservations []*Reservation\<close>,
  \<^verbatim>\<open>Instances []*Instance\<close>, \<^verbatim>\<open>InstanceId *string\<close>,
  \<^verbatim>\<open>State *InstanceState\<close> and \<^verbatim>\<open>Name *string\<close>. A pointer is an
  \<open>option\<close>, \<open>None\<close> for \<^verbatim>\<open>nil\<close>.
\<close>

record InstanceState =
  StateName :: "string option"

record Instance =
  InstanceId :: "string option"
  State :: "InstanceState option"

record Reservation =
  Instances :: "Instance option list"

record DescribeInstancesOutput =
  Reservations :: "Reservation option list"

text \<open>
  A Go function either returns or panics; the only panics of this file's own code are
  the nil dereferences in \<^verbatim>\<open>isRunning\<close>.
\<close>

datatype 'a exec = Return 'a | Panic

section \<open>isReady\<close>

text \<open>
  \<^verbatim>\<open>func isReady(conditions []v1.NodeCondition) (bool, error)\<close>, lines 96 to 110:
  the loop skips conditions of another type and returns at the first condition of type
  \<^verbatim>\<open>v1.NodeReady\<close>.
\<close>

fun isReady :: "NodeCondition list \<Rightarrow> bool \<times> error option" where
  "isReady [] = (False, Some (Error (''cannot find condition type: '' @ NodeReady)))"
| "isReady (condition # conditions) =
     (if Type condition \<noteq> NodeReady then isReady conditions
      else if Status condition = ConditionFalse then (True, None)
      else (False, None))"

section \<open>isRunning\<close>

text \<open>
  The inner loop of \<^verbatim>\<open>isRunning\<close> (lines 129 to 140) over the instances of one
  reservation. \<open>Return None\<close> means that the loop ended without a \<^verbatim>\<open>return\<close>;
  \<open>Return (Some r)\<close> means that the function returned \<open>r\<close>.
\<close>

fun range_Instances :: "string \<Rightarrow> Instance option list \<Rightarrow> (bool \<times> error option) option exec" where
  "range_Instances ident [] = Return None"
| "range_Instances ident (p # instances) =
     (case p of
        None \<Rightarrow> Panic
      | Some instance \<Rightarrow>
          (case InstanceId instance of
             None \<Rightarrow> Panic
           | Some instanceId \<Rightarrow>
               if instanceId \<noteq> ident then range_Instances ident instances
               else
                 (case State instance of
                    None \<Rightarrow> Panic
                  | Some st \<Rightarrow>
                      (case StateName st of
                         None \<Rightarrow> Panic
                       | Some name \<Rightarrow>
                           if name = InstanceStateNameRunning then Return (Some (True, None))
                           else Return (Some (False, None))))))"

text \<open>The outer loop (lines 128 to 141) over the reservations.\<close>

fun range_Reservations :: "string \<Rightarrow> Reservation option list \<Rightarrow> (bool \<times> error option) option exec" where
  "range_Reservations ident [] = Return None"
| "range_Reservations ident (p # reservations) =
     (case p of
        None \<Rightarrow> Panic
      | Some reservation \<Rightarrow>
          (case range_Instances ident (Instances reservation) of
             Panic \<Rightarrow> Panic
           | Return (Some r) \<Rightarrow> Return (Some r)
           | Return None \<Rightarrow> range_Reservations ident reservations))"

text \<open>
  \<^verbatim>\<open>func isRunning(svc *ec2.EC2, id string) (bool, error)\<close>, lines 113 to 144.
  The service is the function \<open>svc\<close> from the list of queried identifiers to the
  provider's answer: an error, or a response. The parameter \<^verbatim>\<open>id\<close> is
  \<open>ident\<close> here.
\<close>

definition isRunning ::
  "(string list \<Rightarrow> error + DescribeInstancesOutput) \<Rightarrow> string \<Rightarrow> (bool \<times> error option) exec" where
  "isRunning svc ident =
     (case svc [ident] of
        Inl err \<Rightarrow> Return (False, Some err)
      | Inr resp \<Rightarrow>
          if length (Reservations resp) = 0 then Return (False, None)
          else
            (case range_Reservations ident (Reservations resp) of
               Panic \<Rightarrow> Panic
             | Return (Some r) \<Rightarrow> Return r
             | Return None \<Rightarrow>
                 Return (False, Some (Error (''cannot find running instance: '' @ ident)))))"

section \<open>The reconciliation loop\<close>

text \<open>
  The collaborators of the loop, over a state \<open>'w\<close> of the world outside the process:
  listing the nodes and describing instances read the world, deleting a node may change
  it. \<open>dryRun\<close> is the flag \<^verbatim>\<open>*cliDryRun\<close>.
\<close>

record 'w api =
  NodesList :: "'w \<Rightarrow> error + Node list"
  DescribeInstances :: "'w \<Rightarrow> string list \<Rightarrow> error + DescribeInstancesOutput"
  NodesDelete :: "'w \<Rightarrow> string \<Rightarrow> error option \<times> 'w"
  dryRun :: bool

text \<open>
  What the loop does that is visible outside: a request for the list of nodes, a line
  written by \<^verbatim>\<open>log.Println\<close> (its operands, an error by its message), a query
  to the provider, a delete request.
\<close>

datatype event =
    NodesListCall
  | Println "string list"
  | DescribeInstancesCall "string list"
  | NodesDeleteCall string

text \<open>
  The outcome of a piece of the loop: the events so far and the world, and whether control
  goes on (\<open>Next\<close>) or the process panicked (\<open>Crash\<close>).
\<close>

datatype 'w step = Next "event list" 'w | Crash "event list" 'w

fun events :: "'w step \<Rightarrow> event list" where
  "events (Next evs w) = evs"
| "events (Crash evs w) = evs"

fun world :: "'w step \<Rightarrow> 'w" where
  "world (Next evs w) = w"
| "world (Crash evs w) = w"

fun after :: "event list \<Rightarrow> 'w step \<Rightarrow> 'w step" where
  "after evs (Next evs' w) = Next (evs @ evs') w"
| "after evs (Crash evs' w) = Crash (evs @ evs') w"

text \<open>The body of the loop over the nodes, lines 58 to 90, for one node.\<close>

definition node_body :: "'w api \<Rightarrow> Node \<Rightarrow> 'w \<Rightarrow> 'w step" where
  "node_body a node w =
     (case isReady (Conditions node) of
        (ready, Some err) \<Rightarrow>
          Next [Println [''Failed to check if instance is ready:'', Error_msg err]] w
      | (ready, None) \<Rightarrow>
          if ready then Next [Println [''Node is ready, skipping:'', Name node]] w
          else
            (case isRunning (DescribeInstances a w) (ExternalID node) of
               Panic \<Rightarrow> Crash [DescribeInstancesCall [ExternalID node]] w
             | Return (running, Some err) \<Rightarrow>
                 Next [DescribeInstancesCall [ExternalID node],
                       Println [''Failed to check if instance is running:'', Error_msg err]] w
             | Return (running, None) \<Rightarrow>
                 if running then
                   Next [DescribeInstancesCall [ExternalID node],
                         Println [''Node is running, skipping:'', Name node]] w
                 else if dryRun a then
                   Next [DescribeInstancesCall [ExternalID node],
                         Println [''Node would have been deleted, skipping:'', Name node]] w
                 else
                   (case NodesDelete a w (Name node) of
                      (Some err, w') \<Rightarrow>
                        Next [DescribeInstancesCall [ExternalID node],
                              NodesDeleteCall (Name node),
                              Println [''Failed to delete node:'', Error_msg err]] w'
                    | (None, w') \<Rightarrow>
                        Next [DescribeInstancesCall [ExternalID node],
                              NodesDeleteCall (Name node)] w')))"

text \<open>The loop \<^verbatim>\<open>for _, node := range list.Items\<close>, lines 57 to 91.\<close>

fun range_Items :: "'w api \<Rightarrow> Node list \<Rightarrow> 'w \<Rightarrow> 'w step" where
  "range_Items a [] w = Next [] w"
| "range_Items a (node # items) w =
     (case node_body a node w of
        Crash evs w' \<Rightarrow> Crash evs w'
      | Next evs w' \<Rightarrow> after evs (range_Items a items w'))"

text \<open>One pass of the outer loop after the timer's signal, lines 51 to 91.\<close>

definition tick :: "'w api \<Rightarrow> 'w \<Rightarrow> 'w step" where
  "tick a w =
     (case NodesList a w of
        Inl err \<Rightarrow>
          Next [NodesListCall, Println [''Failed to lookup node list:'', Error_msg err]] w
      | Inr items \<Rightarrow> after [NodesListCall] (range_Items a items w))"

text \<open>
  The loop \<^verbatim>\<open>for { <-limiter; ... }\<close>, lines 48 to 92, run for the signals the
  timer sends. Each signal comes with what the rest of the world did since the last
  pass (a function on the world). With no signal left the loop is blocked on the
  channel. What \<^verbatim>\<open>main\<close> does before the loop (lines 25 to 46: flags, region,
  clients) is not modelled; its results are the record \<open>a\<close>.
\<close>

fun main_loop :: "'w api \<Rightarrow> ('w \<Rightarrow> 'w) list \<Rightarrow> 'w \<Rightarrow> 'w step" where
  "main_loop a [] w = Next [] w"
| "main_loop a (elapse # limiter) w =
     (case tick a (elapse w) of
        Crash evs w' \<Rightarrow> Crash evs w'
      | Next evs w' \<Rightarrow> after evs (main_loop a limiter w'))"

section \<open>Notions used to state the properties\<close>

text \<open>
  The instances of a response in the order in which \<^verbatim>\<open>isRunning\<close> visits them,
  nil pointers left out.
\<close>

fun instances_of_Reservation :: "Reservation option \<Rightarrow> Instance list" where
  "instances_of_Reservation None = []"
| "instances_of_Reservation (Some reservation) =
     concat (map (\<lambda>p. case p of None \<Rightarrow> [] | Some instance \<Rightarrow> [instance])
       (Instances reservation))"

definition instances_of :: "DescribeInstancesOutput \<Rightarrow> Instance list" where
  "instances_of resp = concat (map instances_of_Reservation (Reservations resp))"

text \<open>
  A response as the provider sends it: no pointer in it is nil, so every instance has an
  identifier and a state with a name.
\<close>

fun filled_Instance :: "Instance option \<Rightarrow> bool" where
  "filled_Instance None = False"
| "filled_Instance (Some instance) =
     (InstanceId instance \<noteq> None \<and>
      (case State instance of None \<Rightarrow> False | Some st \<Rightarrow> StateName st \<noteq> None))"

fun filled_Reservation :: "Reservation option \<Rightarrow> bool" where
  "filled_Reservation None = False"
| "filled_Reservation (Some reservation) = list_all filled_Instance (Instances reservation)"

definition filled :: "DescribeInstancesOutput \<Rightarrow> bool" where
  "filled resp = list_all filled_Reservation (Reservations resp)"

text \<open>The name of the lifecycle state of an instance, \<^verbatim>\<open>*instance.State.Name\<close>.\<close>

definition state_name :: "Instance \<Rightarrow> string option" where
  "state_name instance = (case State instance of None \<Rightarrow> None | Some st \<Rightarrow> StateName st)"

text \<open>Whether a call returned with an error that is not nil.\<close>

fun returns_error :: "(bool \<times> error option) exec \<Rightarrow> bool" where
  "returns_error (Return (b, Some err)) = True"
| "returns_error (Return (b, None)) = False"
| "returns_error Panic = False"

text \<open>The names of the nodes for which a delete request was issued, in order.\<close>

fun deletes :: "event list \<Rightarrow> string list" where
  "deletes [] = []"
| "deletes (NodesDeleteCall name # evs) = name # deletes evs"
| "deletes (ev # evs) = deletes evs"

text \<open>The identifier lists the provider was queried with, in order.\<close>

fun queries :: "event list \<Rightarrow> string list list" where
  "queries [] = []"
| "queries (DescribeInstancesCall ids # evs) = ids # queries evs"
| "queries (ev # evs) = queries evs"

text \<open>
  The three failures that the body of the loop can meet for a node: \<^verbatim>\<open>isReady\<close>
  returns an error; \<^verbatim>\<open>isRunning\<close> is called and returns an error; the delete
  request is issued and returns an error.
\<close>

definition readiness_error :: "Node \<Rightarrow> bool" where
  "readiness_error node = (snd (isReady (Conditions node)) \<noteq> None)"

definition provider_error :: "'w api \<Rightarrow> Node \<Rightarrow> 'w \<Rightarrow> bool" where
  "provider_error a node w =
     (isReady (Conditions node) = (False, None) \<and>
      returns_error (isRunning (DescribeInstances a w) (ExternalID node)))"

definition deletion_failure :: "'w api \<Rightarrow> Node \<Rightarrow> 'w \<Rightarrow> bool" where
  "deletion_failure a node w =
     (isReady (Conditions node) = (False, None) \<and>
      isRunning (DescribeInstances a w) (ExternalID node) = Return (False, None) \<and>
      \<not> dryRun a \<and>
      fst (NodesDelete a w (Name node)) \<noteq> None)"

section \<open>A concrete cluster and provider\<close>

text \<open>
  The scenarios of the specification, used to evaluate the program. The world is the list
  of the nodes registered in the cluster. Listing returns it; a delete request removes
  the node of that name, except for the node \<open>p6\<close>, whose deletion is refused. The
  provider knows no instance \<open>i-1\<close>, a running instance \<open>i-3\<close>, and a stopped
  instance \<open>i-6\<close>; a query for \<open>i-4\<close> is throttled; a query for \<open>i-5\<close> is
  answered with another instance.
\<close>

definition instance_reply :: "string \<Rightarrow> string \<Rightarrow> DescribeInstancesOutput" where
  "instance_reply ident name =
     \<lparr>Reservations =
        [Some \<lparr>Instances =
           [Some \<lparr>InstanceId = Some ident, State = Some \<lparr>StateName = Some name\<rparr>\<rparr>]\<rparr>]\<rparr>"

definition example_svc :: "string list \<Rightarrow> error + DescribeInstancesOutput" where
  "example_svc ids =
     (if ids = [''i-3''] then Inr (instance_reply ''i-3'' ''running'')
      else if ids = [''i-4''] then Inl (Error ''RequestLimitExceeded'')
      else if ids = [''i-5''] then Inr (instance_reply ''i-9'' ''running'')
      else if ids = [''i-6''] then Inr (instance_reply ''i-6'' ''stopped'')
      else Inr \<lparr>Reservations = []\<rparr>)"

definition example_delete :: "Node list \<Rightarrow> string \<Rightarrow> error option \<times> Node list" where
  "example_delete w name =
     (if name = ''p6'' then (Some (Error ''forbidden''), w)
      else (None, filter (\<lambda>node. Name node \<noteq> name) w))"

definition example_api :: "bool \<Rightarrow> Node list api" where
  "example_api dry =
     \<lparr>NodesList = Inr,
      DescribeInstances = (\<lambda>w. example_svc),
      NodesDelete = example_delete,
      dryRun = dry\<rparr>"

definition failing_list_api :: "Node list api" where
  "failing_list_api = (example_api False)\<lparr>NodesList := (\<lambda>w. Inl (Error ''timeout''))\<rparr>"

definition example_node :: "string \<Rightarrow> string \<Rightarrow> NodeCondition list \<Rightarrow> Node" where
  "example_node name ident conditions =
     \<lparr>Name = name, ExternalID = ident, Conditions = conditions\<rparr>"

definition ready_condition :: "string \<Rightarrow> NodeCondition" where
  "ready_condition status = \<lparr>Type = NodeReady, Status = status\<rparr>"

definition other_condition :: "string \<Rightarrow> NodeCondition" where
  "other_condition status = \<lparr>Type = ''OutOfDisk'', Status = status\<rparr>"

text \<open>Scenario A: the node \<open>n1\<close> reports that it is not ready, and its instance is gone.\<close>

definition n1 :: Node where
  "n1 = example_node ''n1'' ''i-1'' [other_condition ''False'', ready_condition ''False'']"

text \<open>
  Nodes that report the status \<^verbatim>\<open>True\<close> (\<open>p0\<close> has no condition of type
  \<^verbatim>\<open>v1.NodeReady\<close> at all), one for each instance of the provider above.
\<close>

definition p0 :: Node where
  "p0 = example_node ''p0'' ''i-1'' [other_condition ''True'']"

definition p3 :: Node where
  "p3 = example_node ''p3'' ''i-3'' [ready_condition ''True'']"

definition p4 :: Node where
  "p4 = example_node ''p4'' ''i-4'' [ready_condition ''True'']"

definition p5 :: Node where
  "p5 = example_node ''p5'' ''i-5'' [ready_condition ''True'']"

definition p6 :: Node where
  "p6 = example_node ''p6'' ''i-6'' [ready_condition ''True'']"

definition p7 :: Node where
  "p7 = example_node ''p7'' ''i-1'' [ready_condition ''True'']"

section \<open>Facts about the loops\<close>

lemmas example_defs =
  example_api_def example_svc_def example_delete_def example_node_def ready_condition_def
  other_condition_def instance_reply_def NodeReady_def ConditionFalse_def
  InstanceStateNameRunning_def

lemmas node_defs = n1_def p0_def p3_def p4_def p5_def p6_def p7_def

text \<open>
  \<^verbatim>\<open>isReady\<close> answers at the first condition of type \<^verbatim>\<open>v1.NodeReady\<close>, and its
  boolean says whether the status of that condition is \<^verbatim>\<open>v1.ConditionFalse\<close>.
\<close>

lemma isReady_first:
  "\<forall>p\<in>set before. Type p \<noteq> NodeReady \<Longrightarrow> Type c = NodeReady \<Longrightarrow>
   isReady (before @ c # later) = (Status c = ConditionFalse, None)"
  by (induction before) auto

lemma isReady_absent:
  "\<forall>c\<in>set conditions. Type c \<noteq> NodeReady \<Longrightarrow>
   isReady conditions = (False, Some (Error (''cannot find condition type: '' @ NodeReady)))"
  by (induction conditions) auto

lemma isReady_present:
  "\<exists>c\<in>set conditions. Type c = NodeReady \<Longrightarrow> snd (isReady conditions) = None"
  by (induction conditions) auto

lemma after_after: "after evs (after evs' s) = after (evs @ evs') s"
  by (cases s) auto

lemma after_Nil: "after [] s = s"
  by (cases s) auto

lemma events_after: "events (after evs s) = evs @ events s"
  by (cases s) auto

lemma world_after: "world (after evs s) = world s"
  by (cases s) auto

lemma deletes_append: "deletes (evs @ evs') = deletes evs @ deletes evs'"
  by (induction evs rule: deletes.induct) auto

text \<open>The nodes after a prefix that did not panic are processed from where it ended.\<close>

lemma range_Items_append:
  "range_Items a before w = Next evs0 w0 \<Longrightarrow>
   range_Items a (before @ items) w = after evs0 (range_Items a items w0)"
proof (induction before arbitrary: w evs0)
  case Nil
  then show ?case by (simp add: after_Nil)
next
  case (Cons node before)
  show ?case
  proof (cases "node_body a node w")
    case (Next evs1 w1)
    with Cons.prems obtain evs2
      where r: "range_Items a before w1 = Next evs2 w0" and e: "evs0 = evs1 @ evs2"
      by (cases "range_Items a before w1") auto
    from Cons.IH [OF r] Next e show ?thesis by (simp add: after_after)
  next
    case (Crash evs1 w1)
    with Cons.prems show ?thesis by simp
  qed
qed

lemma find_append_first:
  "find P (xs @ ys) = (case find P xs of None \<Rightarrow> find P ys | Some x \<Rightarrow> Some x)"
  by (induction xs) auto

text \<open>
  On a response without nil pointers the two loops of \<^verbatim>\<open>isRunning\<close> never panic:
  they return at the first instance with the queried identifier, or end without a return
  when there is none.
\<close>

lemma range_Instances_filled:
  "list_all filled_Instance instances \<Longrightarrow>
   range_Instances ident instances =
     (case find (\<lambda>i. InstanceId i = Some ident)
             (instances_of_Reservation (Some \<lparr>Instances = instances\<rparr>)) of
        None \<Rightarrow> Return None
      | Some instance \<Rightarrow>
          Return (Some (state_name instance = Some InstanceStateNameRunning, None)))"
proof (induction instances)
  case Nil
  then show ?case by simp
next
  case (Cons p instances)
  then show ?case
    by (cases p) (auto simp: state_name_def split: option.splits)
qed

lemma range_Reservations_filled:
  "list_all filled_Reservation reservations \<Longrightarrow>
   range_Reservations ident reservations =
     (case find (\<lambda>i. InstanceId i = Some ident)
             (concat (map instances_of_Reservation reservations)) of
        None \<Rightarrow> Return None
      | Some instance \<Rightarrow>
          Return (Some (state_name instance = Some InstanceStateNameRunning, None)))"
proof (induction reservations)
  case Nil
  then show ?case by simp
next
  case (Cons p reservations)
  then obtain reservation where p: "p = Some reservation"
    and f: "list_all filled_Instance (Instances reservation)"
    by (cases p) auto
  have eq: "instances_of_Reservation (Some \<lparr>Instances = Instances reservation\<rparr>) =
    instances_of_Reservation p"
    using p by simp
  from Cons p show ?case
    using range_Instances_filled [OF f, of ident]
    by (simp only: eq) (auto simp: find_append_first split: option.splits)
qed

lemma isRunning_filled:
  assumes "svc [ident] = Inr resp" and "filled resp"
  shows "isRunning svc ident =
    (if Reservations resp = [] then Return (False, None)
     else case find (\<lambda>i. InstanceId i = Some ident) (instances_of resp) of
        None \<Rightarrow> Return (False, Some (Error (''cannot find running instance: '' @ ident)))
      | Some instance \<Rightarrow> Return (state_name instance = Some InstanceStateNameRunning, None))"
proof -
  from assms(2) have "list_all filled_Reservation (Reservations resp)"
    by (simp add: filled_def)
  from range_Reservations_filled [OF this, of ident] assms(1) show ?thesis
    by (simp add: isRunning_def instances_of_def split: option.splits)
qed

lemma returns_error_iff: "returns_error r \<longleftrightarrow> (\<exists>b err. r = Return (b, Some err))"
  by (cases r rule: returns_error.cases) auto

text \<open>In a dry run no part of the loop issues a delete request or changes the world.\<close>

lemma node_body_dryRun:
  "dryRun a \<Longrightarrow>
   world (node_body a node w) = w \<and> deletes (events (node_body a node w)) = []"
  by (simp add: node_body_def split: prod.splits option.splits exec.splits)

lemma range_Items_dryRun:
  "dryRun a \<Longrightarrow>
   world (range_Items a items w) = w \<and> deletes (events (range_Items a items w)) = []"
proof (induction items)
  case Nil
  then show ?case by simp
next
  case (Cons node items)
  from node_body_dryRun [OF Cons.prems, of node w] Cons.IH [OF Cons.prems]
  show ?case
    by (cases "node_body a node w")
      (simp_all add: world_after events_after deletes_append)
qed

lemma tick_dryRun:
  "dryRun a \<Longrightarrow> world (tick a w) = w \<and> deletes (events (tick a w)) = []"
  using range_Items_dryRun [of a]
  by (simp add: tick_def world_after events_after deletes_append split: sum.splits)

lemma main_loop_dryRun_deletes:
  "dryRun a \<Longrightarrow> deletes (events (main_loop a limiter w)) = []"
proof (induction limiter arbitrary: w)
  case Nil
  then show ?case by simp
next
  case (Cons elapse limiter)
  from tick_dryRun [OF Cons.prems, of "elapse w"] Cons.IH [OF Cons.prems]
  show ?case
    by (cases "tick a (elapse w)") (simp_all add: events_after deletes_append)
qed

lemma main_loop_dryRun_world:
  "dryRun a \<Longrightarrow> world (main_loop a (replicate k (\<lambda>w. w)) w) = w"
proof (induction k)
  case 0
  then show ?case by simp
next
  case (Suc k)
  from tick_dryRun [OF Suc.prems, of w] Suc.IH [OF Suc.prems]
  show ?case
    by (cases "tick a w") (simp_all add: world_after)
qed

section \<open>isReady: the claims\<close>

text \<open>
  Claim C2. The specification says that \<^verbatim>\<open>isReady\<close>, on a sequence that holds the
  condition of type \<^verbatim>\<open>v1.NodeReady\<close>, returns a nil error, with the boolean false
  when the status of that condition is false and true for any other status. The code
  returns the nil error, but its boolean is the other way round: for the status
  \<^verbatim>\<open>False\<close> it returns \<^verbatim>\<open>(true, nil)\<close>, for the statuses \<^verbatim>\<open>True\<close>
  and \<^verbatim>\<open>Unknown\<close> it returns \<^verbatim>\<open>(false, nil)\<close>. The comment above the function
  reads "Helper function to check if a Kubernetes node is Ready".
\<close>

theorem isReady_status_false_returns_true:
  "isReady [ready_condition ConditionFalse] = (True, None) \<and>
   isReady [ready_condition ''True''] = (False, None) \<and>
   isReady [ready_condition ''Unknown''] = (False, None)"
  by (simp add: example_defs)

text \<open>
  Claim C6. \<^verbatim>\<open>isReady\<close> returns an error exactly when no condition of the sequence
  has the type \<^verbatim>\<open>v1.NodeReady\<close>; the error then says that the condition type
  cannot be found, so the absence of the condition always reaches the caller as an error.
\<close>

theorem isReady_error_iff_absent:
  "(snd (isReady conditions) \<noteq> None \<longleftrightarrow> (\<forall>c\<in>set conditions. Type c \<noteq> NodeReady)) \<and>
   (snd (isReady conditions) \<noteq> None \<longrightarrow>
      isReady conditions = (False, Some (Error ''cannot find condition type: Ready'')))"
proof (cases "\<forall>c\<in>set conditions. Type c \<noteq> NodeReady")
  case True
  from isReady_absent [OF this] show ?thesis using True by (simp add: NodeReady_def)
next
  case False
  then have "\<exists>c\<in>set conditions. Type c = NodeReady" by blast
  from isReady_present [OF this] False show ?thesis by simp
qed

theorem isReady_error_iff_absent_witness:
  "isReady [other_condition ''True''] =
     (False, Some (Error ''cannot find condition type: Ready'')) \<and>
   snd (isReady [other_condition ''True'', ready_condition ''True'']) = None"
  using isReady_error_iff_absent [of "[other_condition ''True'']"]
    isReady_error_iff_absent [of "[other_condition ''True'', ready_condition ''True'']"]
  by (simp add: example_defs)

text \<open>
  Claim C10. The result of \<^verbatim>\<open>isReady\<close> is decided by the first condition of type
  \<^verbatim>\<open>v1.NodeReady\<close> alone: with \<open>c\<close> that first condition, the result is the one
  for the sequence that holds only \<open>c\<close>, whatever follows \<open>c\<close>; in particular
  conditions inserted or appended after \<open>c\<close> change neither the boolean nor the error.
\<close>

theorem isReady_first_condition_decides:
  assumes "\<forall>p\<in>set before. Type p \<noteq> NodeReady" and "Type c = NodeReady"
  shows "isReady (before @ c # later) = isReady [c] \<and>
         isReady (before @ c # later1 @ inserted @ later2) =
           isReady (before @ c # later1 @ later2)"
  using isReady_first [OF assms] isReady_first [of "[]" c "[]"] assms(2)
  by simp

theorem isReady_first_condition_decides_witness:
  "isReady [other_condition ''True'', ready_condition ''True'', ready_condition ''False''] =
     isReady [ready_condition ''True''] \<and>
   isReady [other_condition ''True'', ready_condition ''True'', ready_condition ''False'',
            other_condition ''False''] =
     isReady [other_condition ''True'', ready_condition ''True'', other_condition ''False'']"
proof -
  have a: "\<forall>p\<in>set [other_condition ''True'']. Type p \<noteq> NodeReady"
    by (simp add: example_defs)
  have b: "Type (ready_condition ''True'') = NodeReady"
    by (simp add: example_defs)
  from isReady_first_condition_decides [OF a b, of "[ready_condition ''False'']" "[]"
      "[ready_condition ''False'']" "[other_condition ''False'']"]
  show ?thesis by simp
qed

section \<open>isRunning: the claims\<close>

text \<open>
  Claim C3. When the provider answers with a response that holds an instance with the
  queried identifier, \<^verbatim>\<open>isRunning\<close> returns a nil error, and its boolean is true
  exactly when the name of the state of that instance is \<^verbatim>\<open>running\<close>. The instance
  is the first one with the identifier in the order of the response, and the response is
  one without nil pointers.
\<close>

theorem isRunning_found_instance:
  assumes "svc [ident] = Inr resp"
    and "filled resp"
    and "find (\<lambda>i. InstanceId i = Some ident) (instances_of resp) = Some instance"
  shows "isRunning svc ident =
           Return (state_name instance = Some InstanceStateNameRunning, None)"
proof -
  from assms(3) have "instances_of resp \<noteq> []" by auto
  then have ne: "Reservations resp \<noteq> []" by (auto simp: instances_of_def)
  from assms(2) have "list_all filled_Reservation (Reservations resp)"
    by (simp add: filled_def)
  from range_Reservations_filled [OF this, of ident] assms(3)
  have "range_Reservations ident (Reservations resp) =
          Return (Some (state_name instance = Some InstanceStateNameRunning, None))"
    by (simp add: instances_of_def)
  with assms(1) ne show ?thesis by (simp add: isRunning_def)
qed

theorem isRunning_found_instance_witness:
  "isRunning example_svc ''i-3'' = Return (True, None) \<and>
   isRunning example_svc ''i-6'' = Return (False, None)"
proof -
  have a: "example_svc [''i-3''] = Inr (instance_reply ''i-3'' ''running'')"
    by (simp add: example_svc_def)
  have b: "example_svc [''i-6''] = Inr (instance_reply ''i-6'' ''stopped'')"
    by (simp add: example_svc_def)
  have "filled (instance_reply ''i-3'' ''running'')"
    "filled (instance_reply ''i-6'' ''stopped'')"
    by (simp_all add: filled_def instance_reply_def)
  moreover have
    "find (\<lambda>i. InstanceId i = Some ''i-3'') (instances_of (instance_reply ''i-3'' ''running''))
     = Some \<lparr>InstanceId = Some ''i-3'', State = Some \<lparr>StateName = Some ''running''\<rparr>\<rparr>"
    "find (\<lambda>i. InstanceId i = Some ''i-6'') (instances_of (instance_reply ''i-6'' ''stopped''))
     = Some \<lparr>InstanceId = Some ''i-6'', State = Some \<lparr>StateName = Some ''stopped''\<rparr>\<rparr>"
    by (simp_all add: instances_of_def instance_reply_def)
  ultimately show ?thesis
    using a b isRunning_found_instance [of example_svc "''i-3''"]
      isRunning_found_instance [of example_svc "''i-6''"]
    by (simp add: state_name_def InstanceStateNameRunning_def)
qed

text \<open>
  Claim C4. When the provider answers with a response that has no reservation,
  \<^verbatim>\<open>isRunning\<close> returns \<^verbatim>\<open>(false, nil)\<close>: the instance counts as terminated.
\<close>

theorem isRunning_no_reservations:
  "svc [ident] = Inr resp \<Longrightarrow> Reservations resp = [] \<Longrightarrow>
   isRunning svc ident = Return (False, None)"
  by (simp add: isRunning_def)

theorem isRunning_no_reservations_witness:
  "isRunning example_svc ''i-1'' = Return (False, None)"
proof -
  have "example_svc [''i-1''] = Inr \<lparr>Reservations = []\<rparr>"
    by (simp add: example_svc_def)
  from isRunning_no_reservations [of example_svc "''i-1''" "\<lparr>Reservations = []\<rparr>", OF this]
  show ?thesis by simp
qed

text \<open>
  Claim C5. \<^verbatim>\<open>isRunning\<close> returns an error exactly when the query to the provider
  fails, and the error is then the provider's, or when the response has a reservation but
  no instance in it has the queried identifier (the response being one without nil
  pointers). When the body of the loop calls \<^verbatim>\<open>isRunning\<close> for a node and gets an
  error, it logs the error and goes on to the next node: no delete request is issued and
  the world is as before.
\<close>

theorem isRunning_error_iff:
  assumes "svc = DescribeInstances a w" and "ident = ExternalID node"
    and "case svc [ident] of Inl err \<Rightarrow> True | Inr resp \<Rightarrow> filled resp"
  shows "(returns_error (isRunning svc ident) \<longleftrightarrow>
           (case svc [ident] of
              Inl err \<Rightarrow> True
            | Inr resp \<Rightarrow>
                Reservations resp \<noteq> [] \<and>
                \<not> (\<exists>i\<in>set (instances_of resp). InstanceId i = Some ident))) \<and>
         (\<forall>err. svc [ident] = Inl err \<longrightarrow> isRunning svc ident = Return (False, Some err)) \<and>
         (\<forall>b err. isReady (Conditions node) = (False, None) \<and>
             isRunning svc ident = Return (b, Some err) \<longrightarrow>
             node_body a node w =
               Next [DescribeInstancesCall [ident],
                     Println [''Failed to check if instance is running:'', Error_msg err]] w)"
proof -
  have skip: "\<forall>b err. isReady (Conditions node) = (False, None) \<and>
             isRunning svc ident = Return (b, Some err) \<longrightarrow>
             node_body a node w =
               Next [DescribeInstancesCall [ident],
                     Println [''Failed to check if instance is running:'', Error_msg err]] w"
    using assms(1,2) by (simp add: node_body_def)
  show ?thesis
  proof (cases "svc [ident]")
    case (Inl err)
    then show ?thesis using skip by (simp add: isRunning_def)
  next
    case (Inr resp)
    with assms(3) have f: "filled resp" by simp
    have "returns_error (isRunning svc ident) \<longleftrightarrow>
      Reservations resp \<noteq> [] \<and> \<not> (\<exists>i\<in>set (instances_of resp). InstanceId i = Some ident)"
    proof (cases "find (\<lambda>i. InstanceId i = Some ident) (instances_of resp)")
      case None
      then have "\<not> (\<exists>i\<in>set (instances_of resp). InstanceId i = Some ident)"
        by (simp add: find_None_iff)
      with None isRunning_filled [of svc ident resp, OF Inr f] show ?thesis by simp
    next
      case (Some found)
      then have m: "\<exists>i\<in>set (instances_of resp). InstanceId i = Some ident"
        by (auto simp: find_Some_iff)
      then have "Reservations resp \<noteq> []" by (auto simp: instances_of_def)
      with m Some isRunning_filled [of svc ident resp, OF Inr f] show ?thesis by simp
    qed
    then show ?thesis using skip Inr by simp
  qed
qed

theorem isRunning_error_iff_witness:
  "returns_error (isRunning example_svc ''i-4'') \<and>
   returns_error (isRunning example_svc ''i-5'') \<and>
   \<not> returns_error (isRunning example_svc ''i-3'') \<and>
   node_body (example_api False) p4 [p4] =
     Next [DescribeInstancesCall [''i-4''],
           Println [''Failed to check if instance is running:'', ''RequestLimitExceeded'']] [p4] \<and>
   node_body (example_api False) p5 [p5] =
     Next [DescribeInstancesCall [''i-5''],
           Println [''Failed to check if instance is running:'',
                    ''cannot find running instance: i-5'']] [p5]"
proof -
  have a: "example_svc = DescribeInstances (example_api False) w" for w
    by (simp add: example_api_def)
  have i: "''i-4'' = ExternalID p4" "''i-5'' = ExternalID p5" "''i-3'' = ExternalID p3"
    by (simp_all add: node_defs example_node_def)
  have f: "case example_svc [''i-4''] of Inl err \<Rightarrow> True | Inr resp \<Rightarrow> filled resp"
    "case example_svc [''i-5''] of Inl err \<Rightarrow> True | Inr resp \<Rightarrow> filled resp"
    "case example_svc [''i-3''] of Inl err \<Rightarrow> True | Inr resp \<Rightarrow> filled resp"
    by (simp_all add: example_svc_def instance_reply_def filled_def)
  have r: "isReady (Conditions p4) = (False, None)" "isReady (Conditions p5) = (False, None)"
    by (simp_all add: node_defs example_defs)
  have s: "example_svc [''i-4''] = Inl (Error ''RequestLimitExceeded'')"
    "example_svc [''i-5''] = Inr (instance_reply ''i-9'' ''running'')"
    "example_svc [''i-3''] = Inr (instance_reply ''i-3'' ''running'')"
    by (simp_all add: example_svc_def)
  have e4: "returns_error (isRunning example_svc ''i-4'')"
    using isRunning_error_iff [OF a i(1) f(1), of "[p4]"] by (simp add: s)
  have e5: "returns_error (isRunning example_svc ''i-5'')"
    using isRunning_error_iff [OF a i(2) f(2), of "[p5]"]
    by (simp add: s instance_reply_def instances_of_def)
  have e3: "\<not> returns_error (isRunning example_svc ''i-3'')"
    using isRunning_error_iff [OF a i(3) f(3), of "[p3]"]
    by (simp add: s instance_reply_def instances_of_def)
  have v4: "isRunning example_svc ''i-4'' = Return (False, Some (Error ''RequestLimitExceeded''))"
    by (simp add: isRunning_def s)
  have v5: "isRunning example_svc ''i-5'' =
      Return (False, Some (Error ''cannot find running instance: i-5''))"
    by (simp add: isRunning_def s instance_reply_def)
  have k4: "node_body (example_api False) p4 [p4] =
     Next [DescribeInstancesCall [''i-4''],
           Println [''Failed to check if instance is running:'', ''RequestLimitExceeded'']] [p4]"
  proof -
    from isRunning_error_iff [OF a i(1) f(1), of "[p4]"]
    have "isReady (Conditions p4) = (False, None) \<and>
        isRunning example_svc ''i-4'' = Return (False, Some (Error ''RequestLimitExceeded'')) \<longrightarrow>
        node_body (example_api False) p4 [p4] =
          Next [DescribeInstancesCall [''i-4''],
                Println [''Failed to check if instance is running:'',
                         Error_msg (Error ''RequestLimitExceeded'')]] [p4]"
      by blast
    with r(1) v4 show ?thesis by simp
  qed
  have k5: "node_body (example_api False) p5 [p5] =
     Next [DescribeInstancesCall [''i-5''],
           Println [''Failed to check if instance is running:'',
                    ''cannot find running instance: i-5'']] [p5]"
  proof -
    from isRunning_error_iff [OF a i(2) f(2), of "[p5]"]
    have "isReady (Conditions p5) = (False, None) \<and>
        isRunning example_svc ''i-5'' =
          Return (False, Some (Error ''cannot find running instance: i-5'')) \<longrightarrow>
        node_body (example_api False) p5 [p5] =
          Next [DescribeInstancesCall [''i-5''],
                Println [''Failed to check if instance is running:'',
                         Error_msg (Error ''cannot find running instance: i-5'')]] [p5]"
      by blast
    with r(2) v5 show ?thesis by simp
  qed
  from e3 e4 e5 k4 k5 show ?thesis by simp
qed

section \<open>The reconciliation loop: the claims\<close>

text \<open>
  Claim C1. The specification says that a node whose condition of type
  \<^verbatim>\<open>v1.NodeReady\<close> has the status false, and whose instance lookup returns no
  reservation, is deleted in one pass of the loop (or logged as would-be deleted in a dry
  run). The code does neither: \<^verbatim>\<open>isReady\<close> returns true for the status
  \<^verbatim>\<open>False\<close>, so the pass logs that the node is ready and skips it, without a query
  to the provider, and the node stays in the cluster.
\<close>

theorem scenario_A_node_is_skipped:
  "tick (example_api False) [n1] =
     Next [NodesListCall, Println [''Node is ready, skipping:'', ''n1'']] [n1] \<and>
   tick (example_api True) [n1] =
     Next [NodesListCall, Println [''Node is ready, skipping:'', ''n1'']] [n1]"
  by (simp add: tick_def node_body_def n1_def example_defs)

text \<open>
  Claim C7. When listing the nodes fails, the pass logs the failure and does nothing else:
  it evaluates no node, sends no query to the provider and no delete request, leaves the
  world as it is, and the loop goes on with the next signal of the timer.
\<close>

theorem list_failure_skips_tick:
  assumes "NodesList a (elapse w) = Inl err"
  shows "tick a (elapse w) =
           Next [NodesListCall, Println [''Failed to lookup node list:'', Error_msg err]]
             (elapse w) \<and>
         queries (events (tick a (elapse w))) = [] \<and>
         deletes (events (tick a (elapse w))) = [] \<and>
         main_loop a (elapse # limiter) w =
           after [NodesListCall, Println [''Failed to lookup node list:'', Error_msg err]]
             (main_loop a limiter (elapse w))"
  using assms by (simp add: tick_def)

theorem list_failure_skips_tick_witness:
  "main_loop failing_list_api [\<lambda>w. w, \<lambda>w. w] [p7] =
     Next [NodesListCall, Println [''Failed to lookup node list:'', ''timeout''],
           NodesListCall, Println [''Failed to lookup node list:'', ''timeout'']] [p7]"
proof -
  have l: "NodesList failing_list_api ((\<lambda>w. w) [p7]) = Inl (Error ''timeout'')"
    by (simp add: failing_list_api_def example_api_def)
  from list_failure_skips_tick [of failing_list_api "\<lambda>w. w" "[p7]", OF l, of "[\<lambda>w. w]"]
    list_failure_skips_tick [of failing_list_api "\<lambda>w. w" "[p7]", OF l, of "[]"]
  show ?thesis by simp
qed

text \<open>
  Claim C8. With the dry-run flag set the loop never issues a delete request, whatever
  the timer and the rest of the world do; a pass leaves the world as it found it, and so
  does any number of passes when nothing else changes the world. A node that reaches the
  deletion step (\<^verbatim>\<open>isReady\<close> and \<^verbatim>\<open>isRunning\<close> have both returned false
  without an error) is only logged as would-be deleted.
\<close>

theorem dryRun_never_deletes:
  assumes "dryRun a"
  shows "deletes (events (main_loop a limiter w)) = [] \<and>
         world (tick a w) = w \<and>
         world (main_loop a (replicate k (\<lambda>w. w)) w) = w \<and>
         (isReady (Conditions node) = (False, None) \<and>
          isRunning (DescribeInstances a w) (ExternalID node) = Return (False, None) \<longrightarrow>
          node_body a node w =
            Next [DescribeInstancesCall [ExternalID node],
                  Println [''Node would have been deleted, skipping:'', Name node]] w)"
  using assms main_loop_dryRun_deletes [OF assms] tick_dryRun [OF assms]
    main_loop_dryRun_world [OF assms]
  by (simp add: node_body_def)

theorem dryRun_never_deletes_witness:
  "deletes (events (main_loop (example_api True) [\<lambda>w. w, \<lambda>w. w] [p7])) = [] \<and>
   world (main_loop (example_api True) (replicate 2 (\<lambda>w. w)) [p7]) = [p7] \<and>
   node_body (example_api True) p7 [p7] =
     Next [DescribeInstancesCall [''i-1''],
           Println [''Node would have been deleted, skipping:'', ''p7'']] [p7]"
proof -
  have d: "dryRun (example_api True)" by (simp add: example_api_def)
  have r: "isReady (Conditions p7) = (False, None)"
    by (simp add: node_defs example_defs)
  have s: "example_svc [''i-1''] = Inr \<lparr>Reservations = []\<rparr>"
    by (simp add: example_svc_def)
  have q: "isRunning (DescribeInstances (example_api True) [p7]) (ExternalID p7) =
      Return (False, None)"
    by (simp add: isRunning_def example_api_def s p7_def example_node_def)
  have n: "ExternalID p7 = ''i-1''" "Name p7 = ''p7''"
    by (simp_all add: p7_def example_node_def)
  from dryRun_never_deletes [OF d, of "[\<lambda>w. w, \<lambda>w. w]" "[p7]" 2 p7] r q n
  show ?thesis by simp
qed

text \<open>
  Claim C9. A failure for one node does not abort the pass. When the loop reaches a node
  (the nodes before it were processed without a panic) and \<^verbatim>\<open>isReady\<close> returns an
  error, or \<^verbatim>\<open>isRunning\<close> returns an error, or the delete request returns an
  error, then the body for that node ends normally and the pass goes on with the nodes
  listed after it. After an error of \<^verbatim>\<open>isReady\<close> or \<^verbatim>\<open>isRunning\<close> no
  delete request was issued for the node and the world is unchanged; after a failed
  delete request, the one request was issued and the world is the one that request left,
  to which the loop does nothing more for this node.
\<close>

theorem node_failure_does_not_abort_tick:
  assumes "NodesList a w = Inr (before @ node # rest)"
    and "range_Items a before w = Next evs0 w0"
    and "readiness_error node \<or> provider_error a node w0 \<or> deletion_failure a node w0"
  shows "\<exists>evs1.
           node_body a node w0 =
             Next evs1 (if deletion_failure a node w0 then snd (NodesDelete a w0 (Name node))
                        else w0) \<and>
           deletes evs1 = (if deletion_failure a node w0 then [Name node] else []) \<and>
           tick a w =
             after (NodesListCall # evs0 @ evs1)
               (range_Items a rest
                  (if deletion_failure a node w0 then snd (NodesDelete a w0 (Name node))
                   else w0))"
proof -
  let ?w1 = "if deletion_failure a node w0 then snd (NodesDelete a w0 (Name node)) else w0"
  have "\<exists>evs1. node_body a node w0 = Next evs1 ?w1 \<and>
      deletes evs1 = (if deletion_failure a node w0 then [Name node] else [])"
    using assms(3)
  proof (elim disjE)
    assume "readiness_error node"
    then obtain b err where "isReady (Conditions node) = (b, Some err)"
      by (cases "isReady (Conditions node)") (auto simp: readiness_error_def)
    then show ?thesis by (simp add: node_body_def deletion_failure_def)
  next
    assume "provider_error a node w0"
    then obtain b err where "isReady (Conditions node) = (False, None)"
      and "isRunning (DescribeInstances a w0) (ExternalID node) = Return (b, Some err)"
      by (auto simp: provider_error_def returns_error_iff)
    then show ?thesis by (simp add: node_body_def deletion_failure_def)
  next
    assume d: "deletion_failure a node w0"
    then obtain err w' where "NodesDelete a w0 (Name node) = (Some err, w')"
      by (cases "NodesDelete a w0 (Name node)") (auto simp: deletion_failure_def)
    with d show ?thesis by (simp add: node_body_def deletion_failure_def)
  qed
  then obtain evs1 where b: "node_body a node w0 = Next evs1 ?w1"
    and d: "deletes evs1 = (if deletion_failure a node w0 then [Name node] else [])"
    by blast
  from range_Items_append [OF assms(2), of "node # rest"] b
  have "range_Items a (before @ node # rest) w = after (evs0 @ evs1) (range_Items a rest ?w1)"
    by (simp add: after_after)
  with assms(1) have "tick a w = after (NodesListCall # evs0 @ evs1) (range_Items a rest ?w1)"
    by (simp add: tick_def after_after)
  with b d show ?thesis by blast
qed

theorem node_failure_does_not_abort_tick_witness:
  "tick (example_api False) [p0, p4, p6, p7] =
     Next [NodesListCall,
           Println [''Failed to check if instance is ready:'',
                    ''cannot find condition type: Ready''],
           DescribeInstancesCall [''i-4''],
           Println [''Failed to check if instance is running:'', ''RequestLimitExceeded''],
           DescribeInstancesCall [''i-6''], NodesDeleteCall ''p6'',
           Println [''Failed to delete node:'', ''forbidden''],
           DescribeInstancesCall [''i-1''], NodesDeleteCall ''p7'']
       [p0, p4, p6]"
proof -
  let ?a = "example_api False"
  let ?w = "[p0, p4, p6, p7]"
  have l: "NodesList ?a ?w = Inr ([p0, p4] @ p6 # [p7])"
    by (simp add: example_api_def)
  have b: "range_Items ?a [p0, p4] ?w =
      Next [Println [''Failed to check if instance is ready:'',
                     ''cannot find condition type: Ready''],
            DescribeInstancesCall [''i-4''],
            Println [''Failed to check if instance is running:'', ''RequestLimitExceeded'']] ?w"
    by (simp add: node_body_def isRunning_def node_defs example_defs)
  have f: "deletion_failure ?a p6 ?w"
    by (simp add: deletion_failure_def isRunning_def node_defs example_defs)
  have n: "node_body ?a p6 ?w =
      Next [DescribeInstancesCall [''i-6''], NodesDeleteCall ''p6'',
            Println [''Failed to delete node:'', ''forbidden'']] ?w"
    by (simp add: node_body_def isRunning_def node_defs example_defs)
  have r: "range_Items ?a [p7] ?w =
      Next [DescribeInstancesCall [''i-1''], NodesDeleteCall ''p7''] [p0, p4, p6]"
    by (simp add: node_body_def isRunning_def node_defs example_defs)
  have k: "snd (NodesDelete ?a ?w (Name p6)) = ?w"
    by (simp add: node_defs example_defs)
  from node_failure_does_not_abort_tick [OF l b] f
  obtain evs1 where "node_body ?a p6 ?w = Next evs1 (snd (NodesDelete ?a ?w (Name p6)))"
    and "tick ?a ?w =
      after (NodesListCall #
          [Println [''Failed to check if instance is ready:'',
                     ''cannot find condition type: Ready''],
            DescribeInstancesCall [''i-4''],
            Println [''Failed to check if instance is running:'', ''RequestLimitExceeded'']]
          @ evs1)
        (range_Items ?a [p7] (snd (NodesDelete ?a ?w (Name p6))))"
    by auto
  with n r k show ?thesis by simp
qed

end
